theory Spec2Isabelle
  imports Complex_Main "HOL-Library.Word"
begin

section \<open>anpush: the poll cycle of \<open>server.ts\<close>\<close>

text \<open>
  A shallow embedding of \<open>server.ts\<close>: the helpers around the two JSON files under
  \<open>data/\<close>, the payload builder, the poll cycle \<open>pollLatest\<close> and the
  \<open>/subscribe\<close> handler.

  Strings are \<open>string\<close>; a \<open>char\<close> stands for one code unit below 256.
  What the platform provides and the source only calls (the network, the file system, the
  push library, the YAML parser, \<open>JSON.parse\<close>, SHA-256, the clock, number
  formatting) enters as a parameter: the pure ones in the record \<open>runtime\<close>, the
  ones that can differ from cycle to cycle in the record \<open>env\<close>. File contents and
  the effects of a cycle live in the record \<open>world\<close>.
\<close>

subsection \<open>JavaScript values\<close>

datatype json =
    JNull
  | JBool bool
  | JNum rat
  | JStr string
  | JArr "json list"
  | JObj "(string \<times> json) list"

text \<open>Property access \<open>record.k\<close>: \<open>None\<close> is \<open>undefined\<close>. Only the own
  properties \<open>hash\<close>, \<open>id\<close>, \<open>timestamp\<close>, \<open>ts\<close>, \<open>text\<close>,
  \<open>author\<close>, \<open>name\<close> and \<open>body\<close> are ever read, and an array has none of them.\<close>

fun field :: "json \<Rightarrow> string \<Rightarrow> json option" where
  "field (JObj kvs) k = map_of kvs k"
| "field _ k = None"

text \<open>\<open>a ?? b\<close>: the right operand is taken when the left one is \<open>undefined\<close> or
  \<open>null\<close>, and only then.\<close>

definition nullish :: "json option \<Rightarrow> json option \<Rightarrow> json option" where
  "nullish a b = (if a = None \<or> a = Some JNull then b else a)"

text \<open>\<open>v && typeof v === "object"\<close>: objects and arrays; \<open>null\<close> is falsy.\<close>

fun is_object :: "json \<Rightarrow> bool" where
  "is_object (JObj _) = True"
| "is_object (JArr _) = True"
| "is_object _ = False"

text \<open>\<open>String.prototype.trim\<close> on code units below 256: TAB, LF, VT, FF, CR, SP and
  NBSP are the white space and line terminators in that range.\<close>

definition isWhiteSpace :: "char \<Rightarrow> bool" where
  "isWhiteSpace c = (c \<in> set [CHR 0x09, CHR 0x0A, CHR 0x0B, CHR 0x0C, CHR 0x0D, CHR 0x20, CHR 0xA0])"

definition trim :: "string \<Rightarrow> string" where
  "trim s = rev (dropWhile isWhiteSpace (rev (dropWhile isWhiteSpace s)))"

text \<open>\<open>s || undefined\<close> for a string \<open>s\<close>.\<close>

definition or_undefined :: "string \<Rightarrow> string option" where
  "or_undefined s = (if s = [] then None else Some s)"

subsection \<open>Data of the server\<close>

record Keys =
  p256dh :: string
  auth :: string

record Subscription =
  sub_id :: string
  endpoint :: string
  keys :: Keys
  createdAt :: string
  lastNotifiedAt :: "string option"

record State =
  lastSeenId :: "string option"
  lastSeenHash :: "string option"

record summary =
  hash_s :: "string option"
  author :: "string option"
  ts :: "string option"
  textPreview :: "string option"

record poll_result =
  changed :: bool
  sent :: bool
  reason :: "string option"
  latest_r :: "summary option"

record post =
  name :: "string option"
  body_y :: "string option"

record payload =
  title :: string
  body :: string
  url :: string
  hash :: string
  icon :: string
  latest :: json

subsection \<open>The platform\<close>

text \<open>What a thrown value can be in the code modelled here.\<close>

datatype exn = ReadError | SyntaxError | WriteError | NetworkError | BodyError

text \<open>A JSON file on disk, seen through \<open>Deno.readTextFile\<close> followed by
  \<open>JSON.parse(raw) as T\<close>: the read throws, the parse throws, or a value of the
  asserted type \<open>T\<close> comes back (the cast is unchecked in the source; both files are
  written by this server only, through \<open>writeJsonFile\<close>).\<close>

datatype 'a json_file = Unreadable | Malformed | Content 'a

datatype fetched =
    FetchThrows
  | Response bool int "string option"

datatype send_result = Delivered | Failed "int option"

datatype log_entry =
    LatestFetchFailed int
  | RemovingExpired string
  | PushFailed string
  | PollError

datatype event =
    Fetch
  | ReadState
  | WriteState State
  | ReadSubs
  | WriteSubs "Subscription list"
  | Digest string
  | Push string Keys payload
  | Console log_entry

record runtime =
  JSON_parse :: "string \<Rightarrow> json option"
  sha256 :: "string \<Rightarrow> 8 word list"
  Number_toString :: "rat \<Rightarrow> string"
  parseYaml :: "string \<Rightarrow> json option"
  env_PUSH_ICON_URL :: "string option"

record env =
  fetch_latest :: fetched
  saveState_ok :: bool
  saveSubs_ok :: bool
  sendNotification :: "nat \<Rightarrow> string \<Rightarrow> Keys \<Rightarrow> payload \<Rightarrow> send_result"
  now :: string

record world =
  state_file :: "State json_file"
  subs_file :: "Subscription list json_file"
  trace :: "event list"

definition emit :: "event \<Rightarrow> world \<Rightarrow> world" where
  "emit e w = w\<lparr>trace := trace w @ [e]\<rparr>"

definition events_since :: "world \<Rightarrow> world \<Rightarrow> event list" where
  "events_since w w' = drop (length (trace w)) (trace w')"

subsection \<open>Files (lines 41--77)\<close>

text \<open>Lines 43--44: the read and the parse, either of which can throw.\<close>

definition read_and_parse :: "'a json_file \<Rightarrow> exn + 'a" where
  "read_and_parse f =
     (case f of Unreadable \<Rightarrow> Inl ReadError | Malformed \<Rightarrow> Inl SyntaxError | Content v \<Rightarrow> Inr v)"

text \<open>\<open>readJsonFile\<close>: the \<open>try\<close> block around both, with \<open>catch\<close> returning
  the fallback.\<close>

definition readJsonFile :: "'a json_file \<Rightarrow> 'a \<Rightarrow> exn + 'a" where
  "readJsonFile f fallback =
     (case read_and_parse f of Inl _ \<Rightarrow> Inr fallback | Inr v \<Rightarrow> Inr v)"

text \<open>\<open>writeJsonFile\<close>: \<open>Deno.writeTextFile\<close> succeeds (the file then holds the
  value) or throws. The flag says which; a write that throws is taken to leave the file
  as it was.\<close>

definition writeJsonFile :: "bool \<Rightarrow> 'a \<Rightarrow> exn + 'a json_file" where
  "writeJsonFile ok v = (if ok then Inr (Content v) else Inl WriteError)"

definition loadSubscriptions :: "world \<Rightarrow> (exn + Subscription list) \<times> world" where
  "loadSubscriptions w = (readJsonFile (subs_file w) [], emit ReadSubs w)"

definition saveSubscriptions :: "bool \<Rightarrow> Subscription list \<Rightarrow> world \<Rightarrow> (exn + unit) \<times> world" where
  "saveSubscriptions ok subs w =
     (case writeJsonFile ok subs of
        Inl e \<Rightarrow> (Inl e, emit (WriteSubs subs) w)
      | Inr f \<Rightarrow> (Inr (), emit (WriteSubs subs) (w\<lparr>subs_file := f\<rparr>)))"

definition loadState :: "world \<Rightarrow> (exn + State) \<times> world" where
  "loadState w =
     (readJsonFile (state_file w) \<lparr>lastSeenId = None, lastSeenHash = None\<rparr>, emit ReadState w)"

definition saveState :: "bool \<Rightarrow> State \<Rightarrow> world \<Rightarrow> (exn + unit) \<times> world" where
  "saveState ok st w =
     (case writeJsonFile ok st of
        Inl e \<Rightarrow> (Inl e, emit (WriteState st) w)
      | Inr f \<Rightarrow> (Inr (), emit (WriteState st) (w\<lparr>state_file := f\<rparr>)))"

subsection \<open>\<open>subscriptionId\<close> (lines 59--61)\<close>

definition b64 :: "nat \<Rightarrow> char" where
  "b64 n = ''ABCDEFGHIJKLMNOPQRSTUVWXYZabcdefghijklmnopqrstuvwxyz0123456789+/'' ! n"

fun btoa_bytes :: "nat list \<Rightarrow> string" where
  "btoa_bytes (a # b # c # rest) =
     [b64 (a div 4), b64 ((a mod 4) * 16 + b div 16), b64 ((b mod 16) * 4 + c div 64), b64 (c mod 64)]
     @ btoa_bytes rest"
| "btoa_bytes [a, b] =
     [b64 (a div 4), b64 ((a mod 4) * 16 + b div 16), b64 ((b mod 16) * 4), CHR ''='']"
| "btoa_bytes [a] = [b64 (a div 4), b64 ((a mod 4) * 16), CHR ''='', CHR ''='']"
| "btoa_bytes [] = []"

text \<open>\<open>btoa\<close> throws on a code unit above 255; \<open>char\<close> has none.\<close>

definition btoa :: "string \<Rightarrow> string" where
  "btoa s = btoa_bytes (map of_char s)"

definition subscriptionId :: "string \<Rightarrow> string" where
  "subscriptionId ep = filter (\<lambda>c. c \<noteq> CHR ''='') (btoa ep)"

subsection \<open>\<open>hashText\<close> (lines 79--86)\<close>

definition hexdigit :: "nat \<Rightarrow> char" where
  "hexdigit n = ''0123456789abcdef'' ! n"

text \<open>\<open>b.toString(16)\<close> for a byte.\<close>

definition toString16 :: "8 word \<Rightarrow> string" where
  "toString16 b =
     (if unat b < 16 then [hexdigit (unat b)]
      else [hexdigit (unat b div 16), hexdigit (unat b mod 16)])"

definition padStart2 :: "string \<Rightarrow> string" where
  "padStart2 s = replicate (2 - length s) (CHR ''0'') @ s"

definition hashText :: "runtime \<Rightarrow> string \<Rightarrow> string" where
  "hashText rt text = foldl (\<lambda>out b. out @ padStart2 (toString16 b)) [] (sha256 rt text)"

subsection \<open>The payload builder (lines 88--133)\<close>

definition string_field_trimmed :: "json \<Rightarrow> string \<Rightarrow> string option" where
  "string_field_trimmed attrs k =
     (case field attrs k of Some (JStr s) \<Rightarrow> Some (trim s) | _ \<Rightarrow> None)"

definition parsePostYaml :: "runtime \<Rightarrow> string \<Rightarrow> post" where
  "parsePostYaml rt text =
     (case parseYaml rt text of
        None \<Rightarrow> \<lparr>name = None, body_y = None\<rparr>
      | Some parsed \<Rightarrow>
          if is_object parsed then
            (let nm = string_field_trimmed parsed ''name'';
                 bd = string_field_trimmed parsed ''body''
             in \<lparr>name = (case nm of Some s \<Rightarrow> or_undefined s | None \<Rightarrow> None),
                 body_y = (case bd of Some s \<Rightarrow> or_undefined s | None \<Rightarrow> None)\<rparr>)
          else \<lparr>name = None, body_y = None\<rparr>)"

definition formatPushTitle :: "string option \<Rightarrow> string" where
  "formatPushTitle nm =
     (case nm of
        Some n \<Rightarrow> if n \<noteq> [] then ''New Wiredove Message from '' @ n else ''New anproto message''
      | None \<Rightarrow> ''New anproto message'')"

definition formatPushBody :: "string option \<Rightarrow> string" where
  "formatPushBody bd =
     (case bd of
        Some b \<Rightarrow> if b \<noteq> [] \<and> trim b \<noteq> [] then trim b else ''Tap to view the latest update''
      | None \<Rightarrow> ''Tap to view the latest update'')"

definition PUSH_ICON_URL :: "runtime \<Rightarrow> string" where
  "PUSH_ICON_URL rt =
     (case env_PUSH_ICON_URL rt of Some u \<Rightarrow> u | None \<Rightarrow> ''https://wiredove.net/dovepurple_sm.png'')"

text \<open>\<open>typeof record.k === "string" ? record.k : ""\<close> on a record that may be
  \<open>null\<close>.\<close>

definition string_or_empty :: "json option \<Rightarrow> string \<Rightarrow> string" where
  "string_or_empty record k =
     (case record of
        None \<Rightarrow> []
      | Some r \<Rightarrow> (case field r k of Some (JStr s) \<Rightarrow> s | _ \<Rightarrow> []))"

text \<open>The result is the object handed to \<open>JSON.stringify\<close>.\<close>

definition toPushPayload :: "runtime \<Rightarrow> json \<Rightarrow> payload" where
  "toPushPayload rt latest' =
     (let record = (if is_object latest' then Some latest' else None);
          hash' = string_or_empty record ''hash'';
          targetUrl = (if hash' \<noteq> [] then ''https://wiredove.net/#'' @ hash'
                       else ''https://wiredove.net/'');
          rawText = string_or_empty record ''text'';
          parsed = (if rawText \<noteq> [] then parsePostYaml rt rawText
                    else \<lparr>name = None, body_y = None\<rparr>)
      in \<lparr>title = formatPushTitle (name parsed),
          body = formatPushBody (body_y parsed),
          url = targetUrl,
          hash = hash',
          icon = PUSH_ICON_URL rt,
          latest = latest'\<rparr>)"

subsection \<open>\<open>summarizeLatest\<close> (lines 251--260)\<close>

text \<open>The suffix of a cut preview, as the bytes of the literal in the source.\<close>

definition preview_suffix :: string where
  "preview_suffix = [CHR 0xC3, CHR 0xA2, CHR 0xE2, CHR 0x82, CHR 0xAC, CHR 0xC2, CHR 0xA6]"

definition string_or_undefined :: "json \<Rightarrow> string \<Rightarrow> string option" where
  "string_or_undefined record k = (case field record k of Some (JStr s) \<Rightarrow> Some s | _ \<Rightarrow> None)"

definition summarizeLatest :: "json \<Rightarrow> summary" where
  "summarizeLatest record =
     (let text = string_or_empty (Some record) ''text'';
          preview = (if length text > 400 then take 400 text @ preview_suffix else text)
      in \<lparr>hash_s = string_or_undefined record ''hash'',
          author = string_or_undefined record ''author'',
          ts = string_or_undefined record ''ts'',
          textPreview = or_undefined preview\<rparr>)"

subsection \<open>\<open>pollLatest\<close> (lines 135--249)\<close>

text \<open>Lines 157--182: \<open>latestId\<close>, \<open>latestJson\<close> and \<open>latestRecord\<close> after
  the inner \<open>try\<close>. When \<open>JSON.parse\<close> throws, \<open>latestJson\<close> is still the body
  text and the other two keep their initial values.\<close>

definition candidate :: "json \<Rightarrow> json option" where
  "candidate latestRecord =
     nullish (nullish (nullish (field latestRecord ''hash'') (field latestRecord ''id''))
                (field latestRecord ''timestamp''))
       (field latestRecord ''ts'')"

definition identify :: "runtime \<Rightarrow> string \<Rightarrow> string \<times> json \<times> json option" where
  "identify rt bodyText =
     (case JSON_parse rt bodyText of
        None \<Rightarrow> ([], JStr bodyText, None)
      | Some latestJson \<Rightarrow>
          (let latestRecord =
                 (case latestJson of
                    JArr xs \<Rightarrow>
                      (case xs of
                         [] \<Rightarrow> None
                       | first # _ \<Rightarrow> if is_object first then Some first else None)
                  | JObj _ \<Rightarrow> Some latestJson
                  | _ \<Rightarrow> None);
               latestId =
                 (case latestRecord of
                    None \<Rightarrow> []
                  | Some r \<Rightarrow>
                      (case candidate r of
                         Some (JStr s) \<Rightarrow> s
                       | Some (JNum n) \<Rightarrow> Number_toString rt n
                       | _ \<Rightarrow> []))
           in (latestId, latestJson, latestRecord)))"

text \<open>Lines 222--241: the loop over \<open>subs\<close>. \<open>i\<close> counts the calls of
  \<open>webpush.sendNotification\<close>, \<open>nextSubs\<close> is the list being built.\<close>

fun dispatch_loop ::
  "env \<Rightarrow> payload \<Rightarrow> string \<Rightarrow> nat \<Rightarrow> Subscription list \<Rightarrow> Subscription list \<Rightarrow> world
     \<Rightarrow> Subscription list \<times> world" where
  "dispatch_loop e pl nw i [] nextSubs w = (nextSubs, w)"
| "dispatch_loop e pl nw i (sub # rest) nextSubs w =
     (let w1 = emit (Push (endpoint sub) (keys sub) pl) w in
      case sendNotification e i (endpoint sub) (keys sub) pl of
        Delivered \<Rightarrow>
          dispatch_loop e pl nw (Suc i) rest (nextSubs @ [sub\<lparr>lastNotifiedAt := Some nw\<rparr>]) w1
      | Failed status \<Rightarrow>
          if status = Some 404 \<or> status = Some 410 then
            dispatch_loop e pl nw (Suc i) rest nextSubs (emit (Console (RemovingExpired (sub_id sub))) w1)
          else
            dispatch_loop e pl nw (Suc i) rest (nextSubs @ [sub])
              (emit (Console (PushFailed (sub_id sub))) w1))"

definition isNew_of :: "string \<Rightarrow> string \<Rightarrow> State \<Rightarrow> bool" where
  "isNew_of latestId latestHash st =
     (if latestId \<noteq> [] then Some latestId \<noteq> lastSeenId st
      else Some latestHash \<noteq> lastSeenHash st)"

text \<open>Lines 208--244, from \<open>loadSubscriptions\<close> on.\<close>

definition dispatch_all ::
  "runtime \<Rightarrow> env \<Rightarrow> json \<Rightarrow> json option \<Rightarrow> summary option \<Rightarrow> world
     \<Rightarrow> (exn + poll_result) \<times> world" where
  "dispatch_all rt e latestJson latestRecord latestSummary w =
     (case loadSubscriptions w of
        (Inl x, w1) \<Rightarrow> (Inl x, w1)
      | (Inr subs, w1) \<Rightarrow>
          if length subs = 0 then
            (Inr \<lparr>changed = True, sent = False, reason = Some ''no subscriptions'',
                  latest_r = latestSummary\<rparr>, w1)
          else
            (let pl = toPushPayload rt (case latestRecord of Some r \<Rightarrow> r | None \<Rightarrow> latestJson);
                 nw = now e
             in case dispatch_loop e pl nw 0 subs [] w1 of
                  (nextSubs, w2) \<Rightarrow>
                    (case saveSubscriptions (saveSubs_ok e) nextSubs w2 of
                       (Inl x, w3) \<Rightarrow> (Inl x, w3)
                     | (Inr _, w3) \<Rightarrow>
                         (Inr \<lparr>changed = True, sent = True, reason = None,
                               latest_r = latestSummary\<rparr>, w3))))"

text \<open>Lines 157--244, once the body text is there.\<close>

definition detect_and_dispatch ::
  "runtime \<Rightarrow> env \<Rightarrow> bool \<Rightarrow> string \<Rightarrow> world \<Rightarrow> (exn + poll_result) \<times> world" where
  "detect_and_dispatch rt e force bodyText w =
     (case identify rt bodyText of
        (latestId, latestJson, latestRecord) \<Rightarrow>
          (case loadState w of
             (Inl x, w1) \<Rightarrow> (Inl x, w1)
           | (Inr st, w1) \<Rightarrow>
               (let latestHash = (if latestId \<noteq> [] then [] else hashText rt bodyText);
                    w2 = (if latestId \<noteq> [] then w1 else emit (Digest bodyText) w1);
                    latestSummary = map_option summarizeLatest latestRecord;
                    isNew = isNew_of latestId latestHash st
                in if \<not> isNew \<and> \<not> force then
                     (Inr \<lparr>changed = False, sent = False, reason = Some ''no new messages'',
                           latest_r = latestSummary\<rparr>, w2)
                   else
                     (case (if isNew then
                              saveState (saveState_ok e)
                                \<lparr>lastSeenId = or_undefined latestId,
                                 lastSeenHash = or_undefined latestHash\<rparr> w2
                            else (Inr (), w2)) of
                        (Inl x, w3) \<Rightarrow> (Inl x, w3)
                      | (Inr _, w3) \<Rightarrow>
                          dispatch_all rt e latestJson latestRecord latestSummary w3))))"

text \<open>Lines 146--155 and what follows them: the body of the outer \<open>try\<close>.
  \<open>Inl\<close> is an exception on its way to the \<open>catch\<close> of line 245.\<close>

definition pollLatest_try ::
  "runtime \<Rightarrow> env \<Rightarrow> bool \<Rightarrow> world \<Rightarrow> (exn + poll_result) \<times> world" where
  "pollLatest_try rt e force w =
     (let w1 = emit Fetch w in
      case fetch_latest e of
        FetchThrows \<Rightarrow> (Inl NetworkError, w1)
      | Response ok status text \<Rightarrow>
          if \<not> ok then
            (Inr \<lparr>changed = False, sent = False, reason = Some ''latest fetch failed'',
                  latest_r = None\<rparr>,
             emit (Console (LatestFetchFailed status)) w1)
          else
            (case text of
               None \<Rightarrow> (Inl BodyError, w1)
             | Some bodyText \<Rightarrow>
                 if trim bodyText = [] then
                   (Inr \<lparr>changed = False, sent = False, reason = Some ''empty response'',
                         latest_r = None\<rparr>, w1)
                 else detect_and_dispatch rt e force bodyText w1))"

text \<open>The whole function: the \<open>catch\<close> of lines 245--248 turns every exception of
  the body into a summary. The result type keeps the \<open>Inl\<close> side, for an exception
  that would leave \<open>pollLatest\<close>.\<close>

definition pollLatest ::
  "runtime \<Rightarrow> env \<Rightarrow> bool \<Rightarrow> world \<Rightarrow> (exn + poll_result) \<times> world" where
  "pollLatest rt e force w =
     (case pollLatest_try rt e force w of
        (Inl err, w1) \<Rightarrow>
          (Inr \<lparr>changed = False, sent = False, reason = Some ''poll error'', latest_r = None\<rparr>,
           emit (Console PollError) w1)
      | (Inr r, w1) \<Rightarrow> (Inr r, w1))"

subsection \<open>The \<open>/subscribe\<close> handler (lines 291--317)\<close>









section \<open>Vocabulary of the properties\<close>

subsection \<open>Reading a trace\<close>

fun is_push :: "event \<Rightarrow> bool" where
  "is_push (Push _ _ _) = True"
| "is_push _ = False"


fun is_WriteState :: "event \<Rightarrow> bool" where
  "is_WriteState (WriteState _) = True"
| "is_WriteState _ = False"

fun is_WriteSubs :: "event \<Rightarrow> bool" where
  "is_WriteSubs (WriteSubs _) = True"
| "is_WriteSubs _ = False"

text \<open>An access to one of the two stores, read or write.\<close>

fun store_event :: "event \<Rightarrow> bool" where
  "store_event ReadState = True"
| "store_event (WriteState _) = True"
| "store_event ReadSubs = True"
| "store_event (WriteSubs _) = True"
| "store_event _ = False"

subsection \<open>The change detector, in the words of the specification\<close>

text \<open>The stored marker equals the content's identifier, or its fingerprint when the
  content has no identifier.\<close>

definition marker_matches :: "runtime \<Rightarrow> string \<Rightarrow> State \<Rightarrow> bool" where
  "marker_matches rt bodyText st =
     (if fst (identify rt bodyText) \<noteq> [] then lastSeenId st = Some (fst (identify rt bodyText))
      else lastSeenHash st = Some (hashText rt bodyText))"

text \<open>The marker a cycle persists for new content.\<close>

definition marker_for :: "runtime \<Rightarrow> string \<Rightarrow> State" where
  "marker_for rt bodyText =
     (if fst (identify rt bodyText) \<noteq> []
      then \<lparr>lastSeenId = Some (fst (identify rt bodyText)), lastSeenHash = None\<rparr>
      else \<lparr>lastSeenId = None, lastSeenHash = or_undefined (hashText rt bodyText)\<rparr>)"

text \<open>The payload of a cycle: built from the record, or from the parsed value (the body
  text when it is not JSON) when there is no record.\<close>

definition payload_of :: "runtime \<Rightarrow> string \<Rightarrow> payload" where
  "payload_of rt bodyText =
     (case identify rt bodyText of
        (latestId, latestJson, latestRecord) \<Rightarrow>
          toPushPayload rt (case latestRecord of Some r \<Rightarrow> r | None \<Rightarrow> latestJson))"

subsection \<open>The dispatcher, in the words of the specification\<close>

text \<open>"Address gone": the status codes 404 and 410.\<close>

definition address_gone :: "send_result \<Rightarrow> bool" where
  "address_gone r = (r = Failed (Some 404) \<or> r = Failed (Some 410))"

text \<open>What becomes of one recipient: kept with the dispatch time after a delivery, dropped
  when the address is gone, kept as it is after any other failure.\<close>

definition retained :: "send_result \<Rightarrow> string \<Rightarrow> Subscription \<Rightarrow> Subscription option" where
  "retained r nw sub =
     (if r = Delivered then Some (sub\<lparr>lastNotifiedAt := Some nw\<rparr>)
      else if address_gone r then None
      else Some sub)"

text \<open>The outcome of the \<open>j\<close>-th delivery of a pass.\<close>

definition outcome :: "env \<Rightarrow> payload \<Rightarrow> nat \<times> Subscription \<Rightarrow> send_result" where
  "outcome e pl js = sendNotification e (fst js) (endpoint (snd js)) (keys (snd js)) pl"

definition next_recipients ::
  "env \<Rightarrow> payload \<Rightarrow> string \<Rightarrow> nat \<Rightarrow> Subscription list \<Rightarrow> Subscription list" where
  "next_recipients e pl nw i subs =
     List.map_filter (\<lambda>js. retained (outcome e pl js) nw (snd js)) (enumerate i subs)"

text \<open>The events of a pass: one delivery per recipient, in order, each failed one followed
  by its line on the console.\<close>

definition pass_events :: "env \<Rightarrow> payload \<Rightarrow> nat \<Rightarrow> Subscription list \<Rightarrow> event list" where
  "pass_events e pl i subs =
     concat (map (\<lambda>js. Push (endpoint (snd js)) (keys (snd js)) pl #
                     (case outcome e pl js of
                        Delivered \<Rightarrow> []
                      | Failed status \<Rightarrow>
                          if status = Some 404 \<or> status = Some 410
                          then [Console (RemovingExpired (sub_id (snd js)))]
                          else [Console (PushFailed (sub_id (snd js)))]))
               (enumerate i subs))"

subsection \<open>The payload builder, in the words of the specification\<close>

text \<open>The field \<open>k\<close> that the parser extracts from the record's raw text, trimmed:
  absent when the record has no text, when the parser fails or returns no object, when the
  field is missing or no string, and when it is empty after trimming.\<close>

definition parsed_field :: "runtime \<Rightarrow> json \<Rightarrow> string \<Rightarrow> string option" where
  "parsed_field rt v k =
     (case field v ''text'' of
        Some (JStr t) \<Rightarrow>
          if t = [] then None
          else
            (case parseYaml rt t of
               None \<Rightarrow> None
             | Some y \<Rightarrow>
                 (case field y k of
                    Some (JStr s) \<Rightarrow> if trim s = [] then None else Some (trim s)
                  | _ \<Rightarrow> None))
      | _ \<Rightarrow> None)"

subsection \<open>Registration, in the words of the specification\<close>


section \<open>Concrete inputs\<close>

text \<open>A runtime whose \<open>JSON.parse\<close> knows three bodies (written here without their
  double quotes) and rejects every other text, whose YAML parser knows one post, and whose
  digest is two bytes long.\<close>

definition rt_ex :: runtime where
  "rt_ex =
     \<lparr>JSON_parse = (\<lambda>s.
        if s = ''{hash:abc123,text:T}'' then
          Some (JObj [(''hash'', JStr ''abc123''), (''text'', JStr ''T'')])
        else if s = ''{hash:,timestamp:t1}'' then
          Some (JObj [(''hash'', JStr []), (''timestamp'', JStr ''t1'')])
        else if s = ''{id:x}'' then Some (JObj [(''id'', JStr ''x'')])
        else None),
      sha256 = (\<lambda>s. [1, 171]),
      Number_toString = (\<lambda>r. ''0''),
      parseYaml = (\<lambda>s.
        if s = ''T'' then Some (JObj [(''name'', JStr '' Alice ''), (''body'', JStr ''Hello world'')])
        else None),
      env_PUSH_ICON_URL = None\<rparr>"

definition sub_a :: Subscription where
  "sub_a = \<lparr>sub_id = subscriptionId ''ea'', endpoint = ''ea'', keys = \<lparr>p256dh = ''pa'', auth = ''aa''\<rparr>,
            createdAt = ''t0'', lastNotifiedAt = None\<rparr>"

definition sub_b :: Subscription where
  "sub_b = \<lparr>sub_id = subscriptionId ''eb'', endpoint = ''eb'', keys = \<lparr>p256dh = ''pb'', auth = ''ab''\<rparr>,
            createdAt = ''t0'', lastNotifiedAt = None\<rparr>"

definition sub_c :: Subscription where
  "sub_c = \<lparr>sub_id = subscriptionId ''ec'', endpoint = ''ec'', keys = \<lparr>p256dh = ''pc'', auth = ''ac''\<rparr>,
            createdAt = ''t0'', lastNotifiedAt = Some ''t1''\<rparr>"

text \<open>A cycle that fetches the first body; every delivery succeeds but the second of a
  pass, whose address is gone, and the third, which fails with status 500.\<close>

definition e_ex :: env where
  "e_ex =
     \<lparr>fetch_latest = Response True 200 (Some ''{hash:abc123,text:T}''),
      saveState_ok = True,
      saveSubs_ok = True,
      sendNotification = (\<lambda>i ep k pl.
        if i = 1 then Failed (Some 410) else if i = 2 then Failed (Some 500) else Delivered),
      now = ''t2''\<rparr>"

text \<open>A world that has handled the first body, with three recipients.\<close>

definition w_seen :: world where
  "w_seen =
     \<lparr>state_file = Content \<lparr>lastSeenId = Some ''abc123'', lastSeenHash = None\<rparr>,
      subs_file = Content [sub_a, sub_b, sub_c],
      trace = []\<rparr>"

text \<open>A world with no state file and no recipient.\<close>

definition w_fresh :: world where
  "w_fresh = \<lparr>state_file = Unreadable, subs_file = Content [], trace = []\<rparr>"



text \<open>A world whose state file cannot be read and whose subscriptions file is not JSON.\<close>

definition w_broken :: world where
  "w_broken = \<lparr>state_file = Unreadable, subs_file = Malformed, trace = []\<rparr>"

section \<open>Lemmas on the model\<close>

lemma readJsonFile_Inr: "\<exists>v. readJsonFile f fb = Inr v"
  by (cases f) (simp_all add: readJsonFile_def read_and_parse_def)

lemma readJsonFile_Content: "readJsonFile (Content v) fb = Inr v"
  by (simp add: readJsonFile_def read_and_parse_def)

text \<open>The loop in closed form: what it appends to \<open>nextSubs\<close> and to the trace.\<close>

lemma dispatch_loop_closed:
  "dispatch_loop e pl nw i subs acc w =
     (acc @ next_recipients e pl nw i subs, w\<lparr>trace := trace w @ pass_events e pl i subs\<rparr>)"
proof (induction subs arbitrary: i acc w)
  case Nil
  show ?case by (simp add: next_recipients_def pass_events_def map_filter_simps)
next
  case (Cons sub rest)
  show ?case
  proof (cases "sendNotification e i (endpoint sub) (keys sub) pl")
    case Delivered
    then show ?thesis
      by (simp add: Cons.IH next_recipients_def pass_events_def map_filter_simps enumerate_simps
          outcome_def retained_def emit_def)
  next
    case (Failed status)
    then show ?thesis
      by (simp add: Cons.IH next_recipients_def pass_events_def map_filter_simps
          outcome_def retained_def address_gone_def emit_def)
  qed
qed

text \<open>The comparison of lines 188--190 is the negation of \<open>marker_matches\<close>.\<close>

lemma marker_matches_isNew:
  "identify rt bodyText = (latestId, latestJson, latestRecord) \<Longrightarrow>
   isNew_of latestId (if latestId \<noteq> [] then [] else hashText rt bodyText) st
     = (\<not> marker_matches rt bodyText st)"
  by (auto simp add: isNew_of_def marker_matches_def)

lemma dispatch_all_closed:
  assumes "readJsonFile (subs_file w) [] = Inr subs"
  shows "dispatch_all rt e lj lr ls w =
    (if subs = [] then
       (Inr \<lparr>changed = True, sent = False, reason = Some ''no subscriptions'', latest_r = ls\<rparr>,
        w\<lparr>trace := trace w @ [ReadSubs]\<rparr>)
     else
       (let pl = toPushPayload rt (case lr of Some r \<Rightarrow> r | None \<Rightarrow> lj);
            nxt = next_recipients e pl (now e) 0 subs;
            es = ReadSubs # pass_events e pl 0 subs @ [WriteSubs nxt]
        in if saveSubs_ok e then
             (Inr \<lparr>changed = True, sent = True, reason = None, latest_r = ls\<rparr>,
              w\<lparr>subs_file := Content nxt, trace := trace w @ es\<rparr>)
           else (Inl WriteError, w\<lparr>trace := trace w @ es\<rparr>)))"
  using assms
  by (simp add: dispatch_all_def loadSubscriptions_def emit_def dispatch_loop_closed
      saveSubscriptions_def writeJsonFile_def Let_def)

lemma detect_and_dispatch_closed:
  assumes "readJsonFile (state_file w) \<lparr>lastSeenId = None, lastSeenHash = None\<rparr> = Inr st"
  shows "detect_and_dispatch rt e force bodyText w =
    (let lid = fst (identify rt bodyText);
         lj = fst (snd (identify rt bodyText));
         lr = snd (snd (identify rt bodyText));
         ls = map_option summarizeLatest lr;
         w2 = w\<lparr>trace := trace w @ ReadState # (if lid \<noteq> [] then [] else [Digest bodyText])\<rparr>
     in if marker_matches rt bodyText st then
          (if force then dispatch_all rt e lj lr ls w2
           else (Inr \<lparr>changed = False, sent = False, reason = Some ''no new messages'',
                      latest_r = ls\<rparr>, w2))
        else if saveState_ok e then
          dispatch_all rt e lj lr ls
            (w2\<lparr>state_file := Content (marker_for rt bodyText),
                trace := trace w2 @ [WriteState (marker_for rt bodyText)]\<rparr>)
        else (Inl WriteError, w2\<lparr>trace := trace w2 @ [WriteState (marker_for rt bodyText)]\<rparr>))"
proof -
  obtain lid lj lr where id: "identify rt bodyText = (lid, lj, lr)"
    by (cases "identify rt bodyText") auto
  show ?thesis
    using assms
    by (simp add: detect_and_dispatch_def id loadState_def emit_def Let_def
        marker_matches_isNew [OF id] marker_for_def or_undefined_def saveState_def writeJsonFile_def)
qed

lemma pollLatest_try_fetched:
  assumes "fetch_latest e = Response True status (Some bodyText)" and "trim bodyText \<noteq> []"
  shows "pollLatest_try rt e force w =
           detect_and_dispatch rt e force bodyText (w\<lparr>trace := trace w @ [Fetch]\<rparr>)"
  using assms by (simp add: pollLatest_try_def emit_def)

lemma pollLatest_try_empty:
  assumes "fetch_latest e = Response True status (Some bodyText)" and "trim bodyText = []"
  shows "pollLatest_try rt e force w =
           (Inr \<lparr>changed = False, sent = False, reason = Some ''empty response'', latest_r = None\<rparr>,
            w\<lparr>trace := trace w @ [Fetch]\<rparr>)"
  using assms by (simp add: pollLatest_try_def emit_def)

lemma pollLatest_try_not_ok:
  assumes "fetch_latest e = Response False status txt"
  shows "pollLatest_try rt e force w =
           (Inr \<lparr>changed = False, sent = False, reason = Some ''latest fetch failed'', latest_r = None\<rparr>,
            w\<lparr>trace := trace w @ [Fetch, Console (LatestFetchFailed status)]\<rparr>)"
  using assms by (simp add: pollLatest_try_def emit_def)

text \<open>What a dispatch pass leaves in the trace.\<close>

lemma pass_events_kind:
  "ev \<in> set (pass_events e pl i subs) \<Longrightarrow> \<not> is_WriteSubs ev \<and> \<not> is_WriteState ev \<and> \<not> store_event ev"
  by (auto simp add: pass_events_def split: send_result.splits if_splits)

lemma filter_is_push_pass_events:
  "filter is_push (pass_events e pl i subs) = map (\<lambda>sub. Push (endpoint sub) (keys sub) pl) subs"
proof (induction subs arbitrary: i)
  case Nil
  show ?case by (simp add: pass_events_def)
next
  case (Cons sub rest)
  have "pass_events e pl i (sub # rest) =
          (Push (endpoint sub) (keys sub) pl #
            (case outcome e pl (i, sub) of
               Delivered \<Rightarrow> []
             | Failed status \<Rightarrow>
                 if status = Some 404 \<or> status = Some 410
                 then [Console (RemovingExpired (sub_id sub))]
                 else [Console (PushFailed (sub_id sub))]))
          @ pass_events e pl (Suc i) rest"
    by (simp add: pass_events_def enumerate_simps split: send_result.splits)
  then show ?case
    by (simp add: Cons.IH split: send_result.splits)
qed

lemma filter_WriteState_pass_events: "filter is_WriteState (pass_events e pl i subs) = []"
  by (simp add: filter_empty_conv pass_events_kind)


lemma dropWhile_pass_events:
  "dropWhile (\<lambda>ev. \<not> is_WriteSubs ev) (pass_events e pl i subs @ rest)
     = dropWhile (\<lambda>ev. \<not> is_WriteSubs ev) rest"
  by (rule dropWhile_append2) (simp add: pass_events_kind)

lemma payload_of_alt:
  "payload_of rt bodyText =
     toPushPayload rt (case snd (snd (identify rt bodyText)) of
                         Some r \<Rightarrow> r | None \<Rightarrow> fst (snd (identify rt bodyText)))"
  by (simp add: payload_of_def split_beta)

text \<open>The cycle in closed form, once a body that is not blank has been fetched.\<close>

lemma pollLatest_closed:
  assumes fetch: "fetch_latest e = Response True status (Some bodyText)"
    and ne: "trim bodyText \<noteq> []"
    and st: "readJsonFile (state_file w) \<lparr>lastSeenId = None, lastSeenHash = None\<rparr> = Inr st"
    and subs: "readJsonFile (subs_file w) [] = Inr subs"
  shows "pollLatest rt e force w =
    (let ls = map_option summarizeLatest (snd (snd (identify rt bodyText)));
         pl = payload_of rt bodyText;
         nxt = next_recipients e pl (now e) 0 subs;
         err = \<lparr>changed = False, sent = False, reason = Some ''poll error'', latest_r = None\<rparr>;
         es1 = Fetch # ReadState # (if fst (identify rt bodyText) \<noteq> [] then [] else [Digest bodyText]);
         es2 = es1 @ (if marker_matches rt bodyText st then [] else [WriteState (marker_for rt bodyText)]);
         es3 = es2 @ ReadSubs # pass_events e pl 0 subs @ [WriteSubs nxt]
     in if marker_matches rt bodyText st \<and> \<not> force then
          (Inr \<lparr>changed = False, sent = False, reason = Some ''no new messages'', latest_r = ls\<rparr>,
           w\<lparr>trace := trace w @ es1\<rparr>)
        else if \<not> marker_matches rt bodyText st \<and> \<not> saveState_ok e then
          (Inr err, w\<lparr>trace := trace w @ es2 @ [Console PollError]\<rparr>)
        else if subs = [] then
          (Inr \<lparr>changed = True, sent = False, reason = Some ''no subscriptions'', latest_r = ls\<rparr>,
           w\<lparr>state_file := (if marker_matches rt bodyText st then state_file w
                              else Content (marker_for rt bodyText)),
              trace := trace w @ es2 @ [ReadSubs]\<rparr>)
        else if saveSubs_ok e then
          (Inr \<lparr>changed = True, sent = True, reason = None, latest_r = ls\<rparr>,
           w\<lparr>state_file := (if marker_matches rt bodyText st then state_file w
                              else Content (marker_for rt bodyText)),
              subs_file := Content nxt,
              trace := trace w @ es3\<rparr>)
        else
          (Inr err,
           w\<lparr>state_file := (if marker_matches rt bodyText st then state_file w
                              else Content (marker_for rt bodyText)),
              trace := trace w @ es3 @ [Console PollError]\<rparr>))"
proof -
  have rd: "readJsonFile (state_file (w\<lparr>trace := trace w @ [Fetch]\<rparr>))
              \<lparr>lastSeenId = None, lastSeenHash = None\<rparr> = Inr st"
    by (simp add: st)
  show ?thesis
    by (simp add: pollLatest_def pollLatest_try_fetched [OF fetch ne]
        detect_and_dispatch_closed [OF rd] dispatch_all_closed [where subs = subs] subs
        payload_of_alt Let_def emit_def)
qed





text \<open>\<open>trim\<close> is idempotent; the title and the body of a payload.\<close>

lemma last_dropWhile:
  "dropWhile P xs \<noteq> [] \<Longrightarrow> last (dropWhile P xs) = last xs"
proof -
  assume a: "dropWhile P xs \<noteq> []"
  have "last xs = last (takeWhile P xs @ dropWhile P xs)" by simp
  also have "\<dots> = last (dropWhile P xs)" by (rule last_appendR [OF a])
  finally show ?thesis by simp
qed

lemma trim_trim: "trim (trim s) = trim s"
proof (cases "trim s = []")
  case True
  have "trim [] = []" by (simp add: trim_def)
  with True show ?thesis by simp
next
  case False
  define u where "u = dropWhile isWhiteSpace s"
  define v where "v = dropWhile isWhiteSpace (rev u)"
  have ts: "trim s = rev v" by (simp add: trim_def u_def v_def)
  from False ts have vne: "v \<noteq> []" by simp
  then have une: "u \<noteq> []" by (auto simp add: v_def)
  have hv: "\<not> isWhiteSpace (hd v)"
    using vne unfolding v_def by (rule hd_dropWhile)
  have "last v = last (rev u)"
    using vne unfolding v_def by (rule last_dropWhile)
  also have "\<dots> = hd u" using une by (simp add: last_rev)
  finally have lv: "\<not> isWhiteSpace (last v)"
    using une hd_dropWhile [of isWhiteSpace s] by (simp add: u_def)
  have 1: "dropWhile isWhiteSpace (rev v) = rev v"
    using vne lv by (simp add: dropWhile_eq_self_iff hd_rev)
  have 2: "dropWhile isWhiteSpace v = v"
    using vne hv by (simp add: dropWhile_eq_self_iff)
  show ?thesis
    by (simp add: ts) (simp add: trim_def 1 2)
qed

lemma string_or_empty_record:
  "string_or_empty (if is_object v then Some v else None) k
     = (case field v k of Some (JStr s) \<Rightarrow> s | _ \<Rightarrow> [])"
  by (cases v) (simp_all add: string_or_empty_def)

lemma formatPushBody_trimmed:
  "formatPushBody (case (case field y k of Some (JStr s) \<Rightarrow> Some (trim s) | _ \<Rightarrow> None) of
                     Some s \<Rightarrow> or_undefined s | None \<Rightarrow> None)
     = (case field y k of
          Some (JStr s) \<Rightarrow> if trim s = [] then ''Tap to view the latest update'' else trim s
        | _ \<Rightarrow> ''Tap to view the latest update'')"
  by (auto simp add: formatPushBody_def or_undefined_def trim_trim split: option.splits json.splits)

lemma formatPushTitle_trimmed:
  "formatPushTitle (case (case field y k of Some (JStr s) \<Rightarrow> Some (trim s) | _ \<Rightarrow> None) of
                      Some s \<Rightarrow> or_undefined s | None \<Rightarrow> None)
     = (case field y k of
          Some (JStr s) \<Rightarrow> if trim s = [] then ''New anproto message''
                           else ''New Wiredove Message from '' @ trim s
        | _ \<Rightarrow> ''New anproto message'')"
  by (simp add: formatPushTitle_def or_undefined_def split: option.splits json.splits)

lemma formatPushTitle_None: "formatPushTitle None = ''New anproto message''"
  by (simp add: formatPushTitle_def)

lemma formatPushBody_None: "formatPushBody None = ''Tap to view the latest update''"
  by (simp add: formatPushBody_def)

lemma field_not_object: "\<not> is_object y \<Longrightarrow> field y k = None"
  by (cases y) simp_all

lemma parsePostYaml_fields:
  "formatPushTitle (name (parsePostYaml rt t))
     = (case parseYaml rt t of
          None \<Rightarrow> ''New anproto message''
        | Some y \<Rightarrow>
            (case field y ''name'' of
               Some (JStr s) \<Rightarrow> if trim s = [] then ''New anproto message''
                                else ''New Wiredove Message from '' @ trim s
             | _ \<Rightarrow> ''New anproto message''))"
  "formatPushBody (body_y (parsePostYaml rt t))
     = (case parseYaml rt t of
          None \<Rightarrow> ''Tap to view the latest update''
        | Some y \<Rightarrow>
            (case field y ''body'' of
               Some (JStr s) \<Rightarrow> if trim s = [] then ''Tap to view the latest update'' else trim s
             | _ \<Rightarrow> ''Tap to view the latest update''))"
proof -
  show "formatPushTitle (name (parsePostYaml rt t))
     = (case parseYaml rt t of
          None \<Rightarrow> ''New anproto message''
        | Some y \<Rightarrow>
            (case field y ''name'' of
               Some (JStr s) \<Rightarrow> if trim s = [] then ''New anproto message''
                                else ''New Wiredove Message from '' @ trim s
             | _ \<Rightarrow> ''New anproto message''))"
  proof (cases "parseYaml rt t")
    case None
    then show ?thesis by (simp add: parsePostYaml_def formatPushTitle_def)
  next
    case (Some y)
    show ?thesis
    proof (cases "is_object y")
      case True
      with Some show ?thesis
        by (simp add: parsePostYaml_def Let_def string_field_trimmed_def formatPushTitle_trimmed)
    next
      case False
      with Some show ?thesis
        by (simp add: parsePostYaml_def field_not_object formatPushTitle_def)
    qed
  qed
  show "formatPushBody (body_y (parsePostYaml rt t))
     = (case parseYaml rt t of
          None \<Rightarrow> ''Tap to view the latest update''
        | Some y \<Rightarrow>
            (case field y ''body'' of
               Some (JStr s) \<Rightarrow> if trim s = [] then ''Tap to view the latest update'' else trim s
             | _ \<Rightarrow> ''Tap to view the latest update''))"
  proof (cases "parseYaml rt t")
    case None
    then show ?thesis by (simp add: parsePostYaml_def formatPushBody_def)
  next
    case (Some y)
    show ?thesis
    proof (cases "is_object y")
      case True
      with Some show ?thesis
        by (simp add: parsePostYaml_def Let_def string_field_trimmed_def formatPushBody_trimmed)
    next
      case False
      with Some show ?thesis
        by (simp add: parsePostYaml_def field_not_object formatPushBody_def)
    qed
  qed
qed



text \<open>Loads return, and so does the cycle; a write that fails ends it with "poll error".\<close>

lemma loadState_Inr: "\<exists>st. fst (loadState w) = Inr st"
  using readJsonFile_Inr [of "state_file w" "\<lparr>lastSeenId = None, lastSeenHash = None\<rparr>"]
  by (simp add: loadState_def)

lemma loadSubscriptions_Inr: "\<exists>subs. fst (loadSubscriptions w) = Inr subs"
  using readJsonFile_Inr [of "subs_file w" "[]"]
  by (simp add: loadSubscriptions_def)

lemma readJsonFile_fallback:
  "f = Unreadable \<or> f = Malformed \<Longrightarrow> readJsonFile f fb = Inr fb"
  by (auto simp add: readJsonFile_def read_and_parse_def)





section \<open>The properties\<close>

subsection \<open>Idempotent re-poll\<close>

text \<open>
  C1. When the stored dedup marker equals the identifier of the fetched content (or its
  fingerprint, when the content has no identifier), a soft cycle reports
  \<open>changed = false\<close> (and \<open>sent = false\<close>), delivers to nobody, writes neither store
  and leaves both files as they were. For a body that is not blank the reason is
  "no new messages".
\<close>

theorem soft_repoll_is_idempotent:
  assumes fetch: "fetch_latest e = Response True status (Some bodyText)"
    and stored: "state_file w = Content st"
    and handled: "marker_matches rt bodyText st"
  shows "\<exists>r w'. pollLatest rt e False w = (Inr r, w')
           \<and> changed r = False \<and> sent r = False
           \<and> (trim bodyText \<noteq> [] \<longrightarrow> reason r = Some ''no new messages'')
           \<and> filter is_push (events_since w w') = []
           \<and> filter is_WriteState (events_since w w') = []
           \<and> filter is_WriteSubs (events_since w w') = []
           \<and> state_file w' = state_file w \<and> subs_file w' = subs_file w"
proof (cases "trim bodyText = []")
  case True
  show ?thesis
    using True
    by (simp add: pollLatest_def pollLatest_try_empty [OF fetch True] events_since_def)
next
  case False
  have rd: "readJsonFile (state_file (w\<lparr>trace := trace w @ [Fetch]\<rparr>))
              \<lparr>lastSeenId = None, lastSeenHash = None\<rparr> = Inr st"
    by (simp add: stored readJsonFile_Content)
  show ?thesis
    using False
    by (simp add: pollLatest_def pollLatest_try_fetched [OF fetch False]
        detect_and_dispatch_closed [OF rd] handled Let_def events_since_def)
qed

theorem soft_repoll_is_idempotent_witness:
  "\<exists>r w'. pollLatest rt_ex e_ex False w_seen = (Inr r, w')
      \<and> changed r = False \<and> sent r = False \<and> reason r = Some ''no new messages''
      \<and> filter is_push (events_since w_seen w') = []
      \<and> state_file w' = state_file w_seen \<and> subs_file w' = subs_file w_seen"
proof -
  have f: "fetch_latest e_ex = Response True 200 (Some ''{hash:abc123,text:T}'')"
    by (simp add: e_ex_def)
  have s: "state_file w_seen = Content \<lparr>lastSeenId = Some ''abc123'', lastSeenHash = None\<rparr>"
    by (simp add: w_seen_def)
  have m: "marker_matches rt_ex ''{hash:abc123,text:T}'' \<lparr>lastSeenId = Some ''abc123'', lastSeenHash = None\<rparr>"
    by (simp add: marker_matches_def identify_def rt_ex_def candidate_def nullish_def)
  have t: "trim ''{hash:abc123,text:T}'' \<noteq> []"
    by (simp add: trim_def isWhiteSpace_def)
  show ?thesis
    using soft_repoll_is_idempotent [OF f s m] t by blast
qed

subsection \<open>Unavailable feed\<close>

text \<open>
  C8. When the fetch returns a non-success response, or a body that is empty (after
  trimming), the cycle stops with \<open>changed = false\<close>, \<open>sent = false\<close> and a named
  reason ("latest fetch failed", "empty response"); no store is read or written in it,
  and both files are as they were.
\<close>

theorem unavailable_feed_touches_no_store:
  assumes "fetch_latest e = Response False status txt
           \<or> (fetch_latest e = Response True status (Some bodyText) \<and> trim bodyText = [])"
  shows "\<exists>r w'. pollLatest rt e force w = (Inr r, w')
           \<and> changed r = False \<and> sent r = False
           \<and> reason r = Some (if fetch_latest e = Response False status txt
                               then ''latest fetch failed'' else ''empty response'')
           \<and> filter store_event (events_since w w') = []
           \<and> state_file w' = state_file w \<and> subs_file w' = subs_file w"
  using assms
proof
  assume a: "fetch_latest e = Response False status txt"
  show ?thesis
    by (simp add: pollLatest_def pollLatest_try_not_ok [OF a] events_since_def a)
next
  assume a: "fetch_latest e = Response True status (Some bodyText) \<and> trim bodyText = []"
  then have f: "fetch_latest e = Response True status (Some bodyText)" and t: "trim bodyText = []"
    by simp_all
  show ?thesis
    by (simp add: pollLatest_def pollLatest_try_empty [OF f t] events_since_def f)
qed

theorem unavailable_feed_touches_no_store_witness:
  "\<exists>r w'. pollLatest rt_ex (e_ex\<lparr>fetch_latest := Response False 503 None\<rparr>) True w_seen = (Inr r, w')
      \<and> changed r = False \<and> sent r = False \<and> reason r = Some ''latest fetch failed''
      \<and> filter store_event (events_since w_seen w') = []
      \<and> state_file w' = state_file w_seen \<and> subs_file w' = subs_file w_seen"
  using unavailable_feed_touches_no_store
    [of "e_ex\<lparr>fetch_latest := Response False 503 None\<rparr>" 503 None "[]" rt_ex True w_seen]
  by simp

subsection \<open>Forced dispatch\<close>

text \<open>
  C2. A forced cycle on content whose identifier (or fingerprint) equals the stored marker
  delivers to every recipient, in the order of the list, writes no dedup state and leaves
  the state file as it was. In every cycle, forced or not, the dedup state is written
  exactly when the content does not match the stored marker, and then once.
\<close>

theorem forced_dispatch_keeps_marker:
  assumes fetch: "fetch_latest e = Response True status (Some bodyText)"
    and ne: "trim bodyText \<noteq> []"
    and st: "readJsonFile (state_file w) \<lparr>lastSeenId = None, lastSeenHash = None\<rparr> = Inr st"
    and subs: "readJsonFile (subs_file w) [] = Inr subs"
  shows "(marker_matches rt bodyText st \<longrightarrow>
            filter is_push (events_since w (snd (pollLatest rt e True w)))
              = map (\<lambda>sub. Push (endpoint sub) (keys sub) (payload_of rt bodyText)) subs
            \<and> filter is_WriteState (events_since w (snd (pollLatest rt e True w))) = []
            \<and> state_file (snd (pollLatest rt e True w)) = state_file w)
         \<and> (\<forall>force. filter is_WriteState (events_since w (snd (pollLatest rt e force w)))
               = (if marker_matches rt bodyText st then []
                  else [WriteState (marker_for rt bodyText)]))"
  by (simp add: pollLatest_closed [OF fetch ne st subs] Let_def events_since_def
      filter_is_push_pass_events filter_WriteState_pass_events)

theorem forced_dispatch_keeps_marker_witness:
  "filter is_push (events_since w_seen (snd (pollLatest rt_ex e_ex True w_seen)))
     = [Push ''ea'' \<lparr>p256dh = ''pa'', auth = ''aa''\<rparr> (payload_of rt_ex ''{hash:abc123,text:T}''),
        Push ''eb'' \<lparr>p256dh = ''pb'', auth = ''ab''\<rparr> (payload_of rt_ex ''{hash:abc123,text:T}''),
        Push ''ec'' \<lparr>p256dh = ''pc'', auth = ''ac''\<rparr> (payload_of rt_ex ''{hash:abc123,text:T}'')]
   \<and> filter is_WriteState (events_since w_seen (snd (pollLatest rt_ex e_ex True w_seen))) = []
   \<and> state_file (snd (pollLatest rt_ex e_ex True w_seen))
       = Content \<lparr>lastSeenId = Some ''abc123'', lastSeenHash = None\<rparr>"
proof -
  have f: "fetch_latest e_ex = Response True 200 (Some ''{hash:abc123,text:T}'')"
    by (simp add: e_ex_def)
  have t: "trim ''{hash:abc123,text:T}'' \<noteq> []"
    by (simp add: trim_def isWhiteSpace_def)
  have s: "readJsonFile (state_file w_seen) \<lparr>lastSeenId = None, lastSeenHash = None\<rparr>
             = Inr \<lparr>lastSeenId = Some ''abc123'', lastSeenHash = None\<rparr>"
    by (simp add: w_seen_def readJsonFile_Content)
  have r: "readJsonFile (subs_file w_seen) [] = Inr [sub_a, sub_b, sub_c]"
    by (simp add: w_seen_def readJsonFile_Content)
  have m: "marker_matches rt_ex ''{hash:abc123,text:T}'' \<lparr>lastSeenId = Some ''abc123'', lastSeenHash = None\<rparr>"
    by (simp add: marker_matches_def identify_def rt_ex_def candidate_def nullish_def)
  have w: "state_file w_seen = Content \<lparr>lastSeenId = Some ''abc123'', lastSeenHash = None\<rparr>"
    by (simp add: w_seen_def)
  show ?thesis
    using forced_dispatch_keeps_marker [OF f t s r, of rt_ex] m w
    by (simp add: sub_a_def sub_b_def sub_c_def)
qed

subsection \<open>Selective pruning\<close>

text \<open>
  C4. In a cycle that reaches the dispatch pass, every recipient gets one delivery, in
  order; the next recipient list keeps a recipient with \<open>lastNotifiedAt\<close> set to the
  dispatch time after a successful delivery, drops it when the delivery fails with status
  404 or 410, and keeps it unchanged after any other failure (\<open>retained\<close>); that list is
  written once, after the last delivery, and nothing follows the write but the "poll error"
  line when the write itself fails.
\<close>

theorem dispatch_prunes_selectively:
  assumes fetch: "fetch_latest e = Response True status (Some bodyText)"
    and ne: "trim bodyText \<noteq> []"
    and st: "readJsonFile (state_file w) \<lparr>lastSeenId = None, lastSeenHash = None\<rparr> = Inr st"
    and subs: "readJsonFile (subs_file w) [] = Inr subs"
    and some: "subs \<noteq> []"
    and reach: "if marker_matches rt bodyText st then force else saveState_ok e"
  shows "filter is_push (events_since w (snd (pollLatest rt e force w)))
           = map (\<lambda>sub. Push (endpoint sub) (keys sub) (payload_of rt bodyText)) subs
         \<and> dropWhile (\<lambda>ev. \<not> is_WriteSubs ev) (events_since w (snd (pollLatest rt e force w)))
           = WriteSubs (next_recipients e (payload_of rt bodyText) (now e) 0 subs)
               # (if saveSubs_ok e then [] else [Console PollError])
         \<and> subs_file (snd (pollLatest rt e force w))
           = (if saveSubs_ok e
              then Content (next_recipients e (payload_of rt bodyText) (now e) 0 subs)
              else subs_file w)"
  using some reach
  by (simp add: pollLatest_closed [OF fetch ne st subs] Let_def events_since_def
      filter_is_push_pass_events dropWhile_pass_events dropWhile_append3 split: if_splits)

theorem dispatch_prunes_selectively_witness:
  "filter is_push (events_since w_seen (snd (pollLatest rt_ex e_ex True w_seen)))
     = map (\<lambda>sub. Push (endpoint sub) (keys sub) (payload_of rt_ex ''{hash:abc123,text:T}''))
         [sub_a, sub_b, sub_c]
   \<and> dropWhile (\<lambda>ev. \<not> is_WriteSubs ev) (events_since w_seen (snd (pollLatest rt_ex e_ex True w_seen)))
     = [WriteSubs [sub_a\<lparr>lastNotifiedAt := Some ''t2''\<rparr>, sub_c]]
   \<and> subs_file (snd (pollLatest rt_ex e_ex True w_seen))
     = Content [sub_a\<lparr>lastNotifiedAt := Some ''t2''\<rparr>, sub_c]"
proof -
  have f: "fetch_latest e_ex = Response True 200 (Some ''{hash:abc123,text:T}'')"
    by (simp add: e_ex_def)
  have t: "trim ''{hash:abc123,text:T}'' \<noteq> []"
    by (simp add: trim_def isWhiteSpace_def)
  have s: "readJsonFile (state_file w_seen) \<lparr>lastSeenId = None, lastSeenHash = None\<rparr>
             = Inr \<lparr>lastSeenId = Some ''abc123'', lastSeenHash = None\<rparr>"
    by (simp add: w_seen_def readJsonFile_Content)
  have r: "readJsonFile (subs_file w_seen) [] = Inr [sub_a, sub_b, sub_c]"
    by (simp add: w_seen_def readJsonFile_Content)
  have n: "[sub_a, sub_b, sub_c] \<noteq> []"
    by simp
  have m: "if marker_matches rt_ex ''{hash:abc123,text:T}'' \<lparr>lastSeenId = Some ''abc123'', lastSeenHash = None\<rparr>
           then True else saveState_ok e_ex"
    by (simp add: marker_matches_def identify_def rt_ex_def candidate_def nullish_def)
  have nx: "next_recipients e_ex pl (now e_ex) 0 [sub_a, sub_b, sub_c]
              = [sub_a\<lparr>lastNotifiedAt := Some ''t2''\<rparr>, sub_c]" for pl
    by (simp add: next_recipients_def enumerate_simps map_filter_simps retained_def outcome_def
        address_gone_def e_ex_def)
  have ok: "saveSubs_ok e_ex"
    by (simp add: e_ex_def)
  show ?thesis
    using dispatch_prunes_selectively [OF f t s r n m] nx ok
    by simp
qed

subsection \<open>Zero recipients with new content\<close>

text \<open>The reason reported with zero recipients is "no subscriptions", not "no recipients".\<close>

theorem no_recipients_reason_counterexample:
  "fst (pollLatest rt_ex e_ex False w_fresh)
     = Inr \<lparr>changed = True, sent = False, reason = Some ''no subscriptions'',
            latest_r = Some \<lparr>hash_s = Some ''abc123'', author = None, ts = None,
                             textPreview = Some ''T''\<rparr>\<rparr>
   \<and> fst (pollLatest rt_ex e_ex False w_fresh)
     \<noteq> Inr \<lparr>changed = True, sent = False, reason = Some ''no recipients'',
            latest_r = Some \<lparr>hash_s = Some ''abc123'', author = None, ts = None,
                             textPreview = Some ''T''\<rparr>\<rparr>
   \<and> subs_file w_fresh = Content []
   \<and> state_file w_fresh = Unreadable"
proof -
  have f: "fetch_latest e_ex = Response True 200 (Some ''{hash:abc123,text:T}'')"
    by (simp add: e_ex_def)
  have t: "trim ''{hash:abc123,text:T}'' \<noteq> []"
    by (simp add: trim_def isWhiteSpace_def)
  have s: "readJsonFile (state_file w_fresh) \<lparr>lastSeenId = None, lastSeenHash = None\<rparr>
             = Inr \<lparr>lastSeenId = None, lastSeenHash = None\<rparr>"
    by (simp add: w_fresh_def readJsonFile_def read_and_parse_def)
  have r: "readJsonFile (subs_file w_fresh) [] = Inr []"
    by (simp add: w_fresh_def readJsonFile_Content)
  have i: "identify rt_ex ''{hash:abc123,text:T}''
             = (''abc123'', JObj [(''hash'', JStr ''abc123''), (''text'', JStr ''T'')],
                Some (JObj [(''hash'', JStr ''abc123''), (''text'', JStr ''T'')]))"
    by (simp add: identify_def rt_ex_def candidate_def nullish_def)
  have m: "\<not> marker_matches rt_ex ''{hash:abc123,text:T}'' \<lparr>lastSeenId = None, lastSeenHash = None\<rparr>"
    by (simp add: marker_matches_def i)
  have u: "summarizeLatest (JObj [(''hash'', JStr ''abc123''), (''text'', JStr ''T'')])
             = \<lparr>hash_s = Some ''abc123'', author = None, ts = None, textPreview = Some ''T''\<rparr>"
    by (simp add: summarizeLatest_def string_or_empty_def string_or_undefined_def or_undefined_def)
  have ok: "saveState_ok e_ex"
    by (simp add: e_ex_def)
  have "fst (pollLatest rt_ex e_ex False w_fresh)
     = Inr \<lparr>changed = True, sent = False, reason = Some ''no subscriptions'',
            latest_r = Some \<lparr>hash_s = Some ''abc123'', author = None, ts = None,
                             textPreview = Some ''T''\<rparr>\<rparr>"
    using m ok by (simp add: pollLatest_closed [OF f t s r] Let_def i u)
  then show ?thesis
    by (simp add: w_fresh_def)
qed

text \<open>
  C7, amended. A cycle that fetches new content while no recipient is registered, and
  whose write of the dedup state succeeds, reports \<open>changed = true\<close>, \<open>sent = false\<close>
  and the reason "no subscriptions", delivers to nobody, and has written the marker of the
  new content (its identifier, or else its fingerprint) before it loads the recipients.
\<close>

theorem new_content_without_recipients:
  assumes fetch: "fetch_latest e = Response True status (Some bodyText)"
    and ne: "trim bodyText \<noteq> []"
    and st: "readJsonFile (state_file w) \<lparr>lastSeenId = None, lastSeenHash = None\<rparr> = Inr st"
    and new: "\<not> marker_matches rt bodyText st"
    and none: "readJsonFile (subs_file w) [] = Inr []"
    and wr: "saveState_ok e"
  shows "fst (pollLatest rt e force w)
           = Inr \<lparr>changed = True, sent = False, reason = Some ''no subscriptions'',
                  latest_r = map_option summarizeLatest (snd (snd (identify rt bodyText)))\<rparr>
         \<and> filter is_push (events_since w (snd (pollLatest rt e force w))) = []
         \<and> state_file (snd (pollLatest rt e force w)) = Content (marker_for rt bodyText)
         \<and> events_since w (snd (pollLatest rt e force w))
           = Fetch # ReadState # (if fst (identify rt bodyText) \<noteq> [] then [] else [Digest bodyText])
               @ [WriteState (marker_for rt bodyText), ReadSubs]"
  using new wr
  by (simp add: pollLatest_closed [OF fetch ne st none] Let_def events_since_def)

theorem new_content_without_recipients_witness:
  "fst (pollLatest rt_ex e_ex False w_fresh)
     = Inr \<lparr>changed = True, sent = False, reason = Some ''no subscriptions'',
            latest_r = Some \<lparr>hash_s = Some ''abc123'', author = None, ts = None,
                             textPreview = Some ''T''\<rparr>\<rparr>
   \<and> filter is_push (events_since w_fresh (snd (pollLatest rt_ex e_ex False w_fresh))) = []
   \<and> state_file (snd (pollLatest rt_ex e_ex False w_fresh))
     = Content \<lparr>lastSeenId = Some ''abc123'', lastSeenHash = None\<rparr>
   \<and> events_since w_fresh (snd (pollLatest rt_ex e_ex False w_fresh))
     = [Fetch, ReadState, WriteState \<lparr>lastSeenId = Some ''abc123'', lastSeenHash = None\<rparr>, ReadSubs]"
proof -
  have f: "fetch_latest e_ex = Response True 200 (Some ''{hash:abc123,text:T}'')"
    by (simp add: e_ex_def)
  have t: "trim ''{hash:abc123,text:T}'' \<noteq> []"
    by (simp add: trim_def isWhiteSpace_def)
  have s: "readJsonFile (state_file w_fresh) \<lparr>lastSeenId = None, lastSeenHash = None\<rparr>
             = Inr \<lparr>lastSeenId = None, lastSeenHash = None\<rparr>"
    by (simp add: w_fresh_def readJsonFile_def read_and_parse_def)
  have r: "readJsonFile (subs_file w_fresh) [] = Inr []"
    by (simp add: w_fresh_def readJsonFile_Content)
  have i: "identify rt_ex ''{hash:abc123,text:T}''
             = (''abc123'', JObj [(''hash'', JStr ''abc123''), (''text'', JStr ''T'')],
                Some (JObj [(''hash'', JStr ''abc123''), (''text'', JStr ''T'')]))"
    by (simp add: identify_def rt_ex_def candidate_def nullish_def)
  have m: "\<not> marker_matches rt_ex ''{hash:abc123,text:T}'' \<lparr>lastSeenId = None, lastSeenHash = None\<rparr>"
    by (simp add: marker_matches_def i)
  have k: "marker_for rt_ex ''{hash:abc123,text:T}'' = \<lparr>lastSeenId = Some ''abc123'', lastSeenHash = None\<rparr>"
    by (simp add: marker_for_def i)
  have u: "summarizeLatest (JObj [(''hash'', JStr ''abc123''), (''text'', JStr ''T'')])
             = \<lparr>hash_s = Some ''abc123'', author = None, ts = None, textPreview = Some ''T''\<rparr>"
    by (simp add: summarizeLatest_def string_or_empty_def string_or_undefined_def or_undefined_def)
  have ok: "saveState_ok e_ex"
    by (simp add: e_ex_def)
  show ?thesis
    using new_content_without_recipients [OF f t s m r ok, of False]
    by (simp add: i k u)
qed

subsection \<open>Identifier priority\<close>




subsection \<open>Registration\<close>



subsection \<open>The payload builder\<close>

text \<open>A record identified by its \<open>id\<close> field, without text: the link is the bare root
  page, and the title is "New anproto message".\<close>

theorem payload_of_id_record_counterexample:
  "fst (identify rt_ex ''{id:x}'') = ''x''
   \<and> url (payload_of rt_ex ''{id:x}'') = ''https://wiredove.net/''
   \<and> title (payload_of rt_ex ''{id:x}'') = ''New anproto message''
   \<and> title (payload_of rt_ex ''{id:x}'') \<noteq> ''New message''"
proof -
  have i: "identify rt_ex ''{id:x}'' = (''x'', JObj [(''id'', JStr ''x'')], Some (JObj [(''id'', JStr ''x'')]))"
    by (simp add: identify_def rt_ex_def candidate_def nullish_def)
  show ?thesis
    by (simp add: i payload_of_def toPushPayload_def string_or_empty_def formatPushTitle_def)
qed

text \<open>
  C6, amended. The link of a payload is the page \<open>https://wiredove.net/\<close> with the
  record's \<open>hash\<close> field appended as a fragment when that field is a non-empty string,
  and the bare page otherwise (also when the identifier came from another field, or only
  a fingerprint is known). The title is "New Wiredove Message from " followed by the
  trimmed \<open>name\<close> field parsed from the record's raw text, and the body is the trimmed
  \<open>body\<close> field; when the parser fails, or the field is missing or empty after
  trimming, the title is "New anproto message" and the body is
  "Tap to view the latest update".
\<close>

theorem payload_builder:
  "url (toPushPayload rt v)
     = (case field v ''hash'' of
          Some (JStr h) \<Rightarrow> if h = [] then ''https://wiredove.net/'' else ''https://wiredove.net/#'' @ h
        | _ \<Rightarrow> ''https://wiredove.net/'')
   \<and> title (toPushPayload rt v)
     = (case parsed_field rt v ''name'' of
          Some n \<Rightarrow> ''New Wiredove Message from '' @ n
        | None \<Rightarrow> ''New anproto message'')
   \<and> body (toPushPayload rt v)
     = (case parsed_field rt v ''body'' of
          Some b \<Rightarrow> b
        | None \<Rightarrow> ''Tap to view the latest update'')"
proof (intro conjI)
  show "url (toPushPayload rt v)
     = (case field v ''hash'' of
          Some (JStr h) \<Rightarrow> if h = [] then ''https://wiredove.net/'' else ''https://wiredove.net/#'' @ h
        | _ \<Rightarrow> ''https://wiredove.net/'')"
    by (simp add: toPushPayload_def Let_def string_or_empty_record split: option.splits json.splits)
  show "title (toPushPayload rt v)
     = (case parsed_field rt v ''name'' of
          Some n \<Rightarrow> ''New Wiredove Message from '' @ n
        | None \<Rightarrow> ''New anproto message'')"
    by (simp add: toPushPayload_def Let_def string_or_empty_record parsed_field_def
        parsePostYaml_fields formatPushTitle_None split: option.splits json.splits)
  show "body (toPushPayload rt v)
     = (case parsed_field rt v ''body'' of
          Some b \<Rightarrow> b
        | None \<Rightarrow> ''Tap to view the latest update'')"
    by (simp add: toPushPayload_def Let_def string_or_empty_record parsed_field_def
        parsePostYaml_fields formatPushBody_None split: option.splits json.splits)
qed

theorem payload_builder_witness:
  "url (toPushPayload rt_ex (JObj [(''hash'', JStr ''abc123''), (''text'', JStr ''T'')]))
     = ''https://wiredove.net/#abc123''
   \<and> title (toPushPayload rt_ex (JObj [(''hash'', JStr ''abc123''), (''text'', JStr ''T'')]))
     = ''New Wiredove Message from Alice''
   \<and> body (toPushPayload rt_ex (JObj [(''hash'', JStr ''abc123''), (''text'', JStr ''T'')]))
     = ''Hello world''"
proof -
  have n: "parsed_field rt_ex (JObj [(''hash'', JStr ''abc123''), (''text'', JStr ''T'')]) ''name''
             = Some ''Alice''"
    by (simp add: parsed_field_def rt_ex_def trim_def isWhiteSpace_def)
  have b: "parsed_field rt_ex (JObj [(''hash'', JStr ''abc123''), (''text'', JStr ''T'')]) ''body''
             = Some ''Hello world''"
    by (simp add: parsed_field_def rt_ex_def trim_def isWhiteSpace_def)
  show ?thesis
    using payload_builder [of rt_ex "JObj [(''hash'', JStr ''abc123''), (''text'', JStr ''T'')]"]
    by (simp add: n b)
qed

subsection \<open>Persistence failures\<close>




subsection \<open>Loads under read failure\<close>

text \<open>
  C10. Loading the dedup state and loading the recipients never throw. When the state file
  cannot be read or parsed, the load returns the empty marker, against which every
  identifier and every fingerprint is new: a cycle that fetches a body then writes its
  marker. When the subscriptions file cannot be read or parsed, the load returns the empty
  list, and a cycle that gets as far as loading it reports "no subscriptions".
\<close>

theorem store_loads_never_throw:
  "(\<exists>st. fst (loadState w) = Inr st)
   \<and> (\<exists>subs. fst (loadSubscriptions w) = Inr subs)
   \<and> (state_file w = Unreadable \<or> state_file w = Malformed \<longrightarrow>
        fst (loadState w) = Inr \<lparr>lastSeenId = None, lastSeenHash = None\<rparr>
        \<and> (\<forall>latestId latestHash.
              isNew_of latestId latestHash \<lparr>lastSeenId = None, lastSeenHash = None\<rparr>)
        \<and> (\<forall>status bodyText.
              fetch_latest e = Response True status (Some bodyText) \<and> trim bodyText \<noteq> [] \<longrightarrow>
              filter is_WriteState (events_since w (snd (pollLatest rt e force w)))
                = [WriteState (marker_for rt bodyText)]))
   \<and> (subs_file w = Unreadable \<or> subs_file w = Malformed \<longrightarrow>
        fst (loadSubscriptions w) = Inr []
        \<and> (\<forall>status bodyText st.
              fetch_latest e = Response True status (Some bodyText) \<and> trim bodyText \<noteq> []
              \<and> fst (loadState w) = Inr st
              \<and> (if marker_matches rt bodyText st then force else saveState_ok e) \<longrightarrow>
              fst (pollLatest rt e force w)
                = Inr \<lparr>changed = True, sent = False, reason = Some ''no subscriptions'',
                       latest_r = map_option summarizeLatest (snd (snd (identify rt bodyText)))\<rparr>))"
proof (intro conjI impI allI)
  show "\<exists>st. fst (loadState w) = Inr st" by (rule loadState_Inr)
  show "\<exists>subs. fst (loadSubscriptions w) = Inr subs" by (rule loadSubscriptions_Inr)
next
  assume a: "state_file w = Unreadable \<or> state_file w = Malformed"
  then show "fst (loadState w) = Inr \<lparr>lastSeenId = None, lastSeenHash = None\<rparr>"
    by (simp add: loadState_def readJsonFile_fallback)
next
  fix latestId latestHash
  show "isNew_of latestId latestHash \<lparr>lastSeenId = None, lastSeenHash = None\<rparr>"
    by (simp add: isNew_of_def)
next
  fix status bodyText
  assume a: "state_file w = Unreadable \<or> state_file w = Malformed"
    and b: "fetch_latest e = Response True status (Some bodyText) \<and> trim bodyText \<noteq> []"
  from b have f: "fetch_latest e = Response True status (Some bodyText)" and t: "trim bodyText \<noteq> []"
    by simp_all
  have st: "readJsonFile (state_file w) \<lparr>lastSeenId = None, lastSeenHash = None\<rparr>
              = Inr \<lparr>lastSeenId = None, lastSeenHash = None\<rparr>"
    by (rule readJsonFile_fallback [OF a])
  obtain subs where subs: "readJsonFile (subs_file w) [] = Inr subs"
    using readJsonFile_Inr [of "subs_file w" "[]"] by (elim exE)
  have m: "\<not> marker_matches rt bodyText \<lparr>lastSeenId = None, lastSeenHash = None\<rparr>"
    by (simp add: marker_matches_def)
  show "filter is_WriteState (events_since w (snd (pollLatest rt e force w)))
          = [WriteState (marker_for rt bodyText)]"
    using m
    by (simp add: pollLatest_closed [OF f t st subs] Let_def events_since_def
        filter_WriteState_pass_events)
next
  assume a: "subs_file w = Unreadable \<or> subs_file w = Malformed"
  then show "fst (loadSubscriptions w) = Inr []"
    by (simp add: loadSubscriptions_def readJsonFile_fallback)
next
  fix status bodyText st
  assume a: "subs_file w = Unreadable \<or> subs_file w = Malformed"
    and b: "fetch_latest e = Response True status (Some bodyText) \<and> trim bodyText \<noteq> []
            \<and> fst (loadState w) = Inr st
            \<and> (if marker_matches rt bodyText st then force else saveState_ok e)"
  from b have f: "fetch_latest e = Response True status (Some bodyText)" and t: "trim bodyText \<noteq> []"
    and st: "readJsonFile (state_file w) \<lparr>lastSeenId = None, lastSeenHash = None\<rparr> = Inr st"
    and reach: "if marker_matches rt bodyText st then force else saveState_ok e"
    by (simp_all add: loadState_def)
  have subs: "readJsonFile (subs_file w) [] = Inr []"
    by (rule readJsonFile_fallback [OF a])
  show "fst (pollLatest rt e force w)
          = Inr \<lparr>changed = True, sent = False, reason = Some ''no subscriptions'',
                 latest_r = map_option summarizeLatest (snd (snd (identify rt bodyText)))\<rparr>"
    using reach
    by (simp add: pollLatest_closed [OF f t st subs] Let_def split: if_splits)
qed

theorem store_loads_never_throw_witness:
  "fst (loadState w_broken) = Inr \<lparr>lastSeenId = None, lastSeenHash = None\<rparr>
   \<and> fst (loadSubscriptions w_broken) = Inr []
   \<and> filter is_WriteState (events_since w_broken (snd (pollLatest rt_ex e_ex False w_broken)))
     = [WriteState (marker_for rt_ex ''{hash:abc123,text:T}'')]
   \<and> fst (pollLatest rt_ex e_ex False w_broken)
     = Inr \<lparr>changed = True, sent = False, reason = Some ''no subscriptions'',
            latest_r = map_option summarizeLatest (snd (snd (identify rt_ex ''{hash:abc123,text:T}'')))\<rparr>"
proof -
  have a: "state_file w_broken = Unreadable \<or> state_file w_broken = Malformed"
    by (simp add: w_broken_def)
  have b: "subs_file w_broken = Unreadable \<or> subs_file w_broken = Malformed"
    by (simp add: w_broken_def)
  have f: "fetch_latest e_ex = Response True 200 (Some ''{hash:abc123,text:T}'')"
    by (simp add: e_ex_def)
  have t: "trim ''{hash:abc123,text:T}'' \<noteq> []"
    by (simp add: trim_def isWhiteSpace_def)
  have l: "fst (loadState w_broken) = Inr \<lparr>lastSeenId = None, lastSeenHash = None\<rparr>"
    by (simp add: loadState_def w_broken_def readJsonFile_def read_and_parse_def)
  have m: "if marker_matches rt_ex ''{hash:abc123,text:T}'' \<lparr>lastSeenId = None, lastSeenHash = None\<rparr>
           then False else saveState_ok e_ex"
    by (simp add: marker_matches_def e_ex_def)
  show ?thesis
    using store_loads_never_throw [of w_broken e_ex rt_ex False] a b f t l m
    by blast
qed

end
